theory Spec2Isabelle
  imports Complex_Main "HOL-Library.Word"
begin

section \<open>Python values used by the script\<close>

text \<open>
  The application is one Streamlit script, \<^verbatim>\<open>app.py\<close>. Its only function of its own
  is \<^verbatim>\<open>hex_to_bgr\<close>; the rest is a straight-line pipeline over calls into
  Streamlit, PIL, numpy and OpenCV. Exceptions are values: a raise is \<open>Inl\<close>.

  A Python \<^verbatim>\<open>str\<close> is modelled as a \<open>string\<close> whose characters are the
  code points below 256; code points beyond that range are outside the model.
\<close>

datatype pyexc =
    ValueError string   \<comment> \<open>\<^verbatim>\<open>int()\<close>: invalid literal, carrying the literal\<close>
  | LibError string     \<comment> \<open>an exception raised inside PIL, numpy or OpenCV\<close>

subsection \<open>\<^verbatim>\<open>str.lstrip\<close>, slicing and \<^verbatim>\<open>int(s, 16)\<close>\<close>

definition lstrip_hash :: "string \<Rightarrow> string" where
  \<comment> \<open>\<^verbatim>\<open>s.lstrip('#')\<close>: every leading \<^verbatim>\<open>#\<close> goes, not only the first\<close>
  "lstrip_hash s = dropWhile (\<lambda>c. c = CHR ''#'') s"

definition py_slice :: "string \<Rightarrow> nat \<Rightarrow> nat \<Rightarrow> string" where
  \<comment> \<open>\<^verbatim>\<open>s[i:j]\<close> for \<open>0 \<le> i \<le> j\<close>: clipped at the end of the string, never an error\<close>
  "py_slice s i j = take (j - i) (drop i s)"

definition is_py_space :: "char \<Rightarrow> bool" where
  \<comment> \<open>what \<^verbatim>\<open>int()\<close> strips from a \<^verbatim>\<open>str\<close>: tab, LF, VT, FF, CR, space, and NEL
     and NBSP, which the conversion to ASCII turns into a space\<close>
  "is_py_space c =
     (let n = (of_char c :: nat)
      in (9 \<le> n \<and> n \<le> 13) \<or> n = 32 \<or> n = 133 \<or> n = 160)"

definition hex_val :: "char \<Rightarrow> nat option" where
  \<comment> \<open>the value of a base-16 digit: \<^verbatim>\<open>0-9\<close>, \<^verbatim>\<open>a-f\<close>, \<^verbatim>\<open>A-F\<close>\<close>
  "hex_val c =
     (let n = (of_char c :: nat)
      in if 48 \<le> n \<and> n \<le> 57 then Some (n - 48)
         else if 97 \<le> n \<and> n \<le> 102 then Some (n - 87)
         else if 65 \<le> n \<and> n \<le> 70 then Some (n - 55)
         else None)"

fun scan_digits :: "bool \<Rightarrow> nat \<Rightarrow> int \<Rightarrow> string \<Rightarrow> (nat \<times> int \<times> string) option" where
  \<comment> \<open>the digit loop of \<^verbatim>\<open>int()\<close>: digits with single underscores between them;
     the flag says that the previous character was an underscore; the result is the
     number of digits, their value, and the unread rest\<close>
  "scan_digits prev n acc [] = (if prev then None else Some (n, acc, []))"
| "scan_digits prev n acc (c # cs) =
     (if c = CHR ''_'' then (if prev then None else scan_digits True n acc cs)
      else (case hex_val c of
              Some d \<Rightarrow> scan_digits False (Suc n) (16 * acc + int d) cs
            | None \<Rightarrow> (if prev then None else Some (n, acc, c # cs))))"

definition skip_sign :: "string \<Rightarrow> int \<times> string" where
  "skip_sign s =
     (case s of
        [] \<Rightarrow> (1, [])
      | c # cs \<Rightarrow> if c = CHR ''+'' then (1, cs)
                  else if c = CHR ''-'' then (- 1, cs)
                  else (1, c # cs))"

definition skip_prefix :: "string \<Rightarrow> string" where
  \<comment> \<open>an optional \<^verbatim>\<open>0x\<close> or \<^verbatim>\<open>0X\<close>, and one underscore right after it\<close>
  "skip_prefix s =
     (case s of
        a # b # cs \<Rightarrow>
          if a = CHR ''0'' \<and> (b = CHR ''x'' \<or> b = CHR ''X'')
          then (case cs of [] \<Rightarrow> [] | u # r \<Rightarrow> if u = CHR ''_'' then r else u # r)
          else a # b # cs
      | _ \<Rightarrow> s)"

definition py_int16 :: "string \<Rightarrow> pyexc + int" where
  \<comment> \<open>\<^verbatim>\<open>int(s, 16)\<close>\<close>
  "py_int16 s =
     (case skip_sign (dropWhile is_py_space s) of
        (sign, s2) \<Rightarrow>
          (case skip_prefix s2 of
             [] \<Rightarrow> Inl (ValueError s)
           | c # cs \<Rightarrow>
               if c = CHR ''_'' then Inl (ValueError s)
               else (case scan_digits False 0 0 (c # cs) of
                       None \<Rightarrow> Inl (ValueError s)
                     | Some (n, v, rest) \<Rightarrow>
                         if n = 0 then Inl (ValueError s)
                         else if dropWhile is_py_space rest = [] then Inr (sign * v)
                         else Inl (ValueError s))))"

subsection \<open>The colour conversion\<close>

definition hex_to_bgr :: "string \<Rightarrow> pyexc + (int \<times> int \<times> int)" where
  \<comment> \<open>the generator reads the pairs at 0, 2, 4 in this order; the first failing
     \<^verbatim>\<open>int()\<close> raises\<close>
  "hex_to_bgr hex_color =
     (let h = lstrip_hash hex_color
      in case py_int16 (py_slice h 0 2) of
           Inl e \<Rightarrow> Inl e
         | Inr r \<Rightarrow>
             (case py_int16 (py_slice h 2 4) of
                Inl e \<Rightarrow> Inl e
              | Inr g \<Rightarrow>
                  (case py_int16 (py_slice h 4 6) of
                     Inl e \<Rightarrow> Inl e
                   | Inr b \<Rightarrow> Inr (b, g, r))))"

section \<open>Arrays, the store and the libraries\<close>

text \<open>
  A numpy \<^verbatim>\<open>uint8\<close> array of shape (rows, cols, chans), or (rows, cols) when
  \<open>nd_chans\<close> is 1, holds its pixels in row-major order, each pixel a list of channel
  bytes. Arrays are objects: the store is a list of arrays and an address is an index
  into it, so that a write through one name is seen through every alias. Arrays of other
  element types (16-bit PNGs) are outside the model.
\<close>

type_synonym u8 = "8 word"
type_synonym i32 = "32 word"   \<comment> \<open>a numpy \<^verbatim>\<open>int32\<close>: \<open>+\<close> wraps around\<close>
type_synonym pixel = "u8 list"
type_synonym region = "i32 \<times> i32 \<times> i32 \<times> i32"   \<comment> \<open>one row (x, y, w, h) of \<^verbatim>\<open>faces\<close>\<close>

record ndarray =
  nd_rows :: nat
  nd_cols :: nat
  nd_chans :: nat
  nd_data :: "pixel list"

definition wf_ndarray :: "ndarray \<Rightarrow> bool" where
  "wf_ndarray a \<longleftrightarrow>
     length (nd_data a) = nd_rows a * nd_cols a \<and> (\<forall>p \<in> set (nd_data a). length p = nd_chans a)"

definition swap_rb :: "pixel \<Rightarrow> pixel" where
  "swap_rb p = [p ! 2, p ! 1, p ! 0]"

definition swap_channels :: "ndarray \<Rightarrow> ndarray" where
  "swap_channels src = src\<lparr>nd_chans := 3, nd_data := map swap_rb (nd_data src)\<rparr>"

definition grey_of :: "(u8 \<Rightarrow> u8 \<Rightarrow> u8 \<Rightarrow> u8) \<Rightarrow> ndarray \<Rightarrow> ndarray" where
  "grey_of weigh src =
     src\<lparr>nd_chans := 1, nd_data := map (\<lambda>p. [weigh (p ! 0) (p ! 1) (p ! 2)]) (nd_data src)\<rparr>"

definition cvtColor_RGB2BGR :: "ndarray \<Rightarrow> pyexc + ndarray" where
  \<comment> \<open>\<^verbatim>\<open>cv2.cvtColor(src, cv2.COLOR_RGB2BGR)\<close>: a new array of three channels with the
     first and third swapped; a fourth channel is dropped; OpenCV raises on an empty
     array and on one or two channels\<close>
  "cvtColor_RGB2BGR src =
     (if nd_rows src = 0 \<or> nd_cols src = 0 \<or> \<not> (nd_chans src = 3 \<or> nd_chans src = 4)
      then Inl (LibError ''cvtColor'')
      else Inr (swap_channels src))"

definition cvtColor_BGR2RGB :: "ndarray \<Rightarrow> pyexc + ndarray" where
  \<comment> \<open>\<^verbatim>\<open>cv2.COLOR_BGR2RGB\<close> and \<^verbatim>\<open>cv2.COLOR_RGB2BGR\<close> are one conversion code\<close>
  "cvtColor_BGR2RGB = cvtColor_RGB2BGR"

definition cvtColor_BGR2GRAY :: "(u8 \<Rightarrow> u8 \<Rightarrow> u8 \<Rightarrow> u8) \<Rightarrow> ndarray \<Rightarrow> pyexc + ndarray" where
  \<comment> \<open>\<^verbatim>\<open>cv2.cvtColor(src, cv2.COLOR_BGR2GRAY)\<close>: one byte per pixel, the library's
     weighting of blue, green and red\<close>
  "cvtColor_BGR2GRAY weigh src =
     (if nd_rows src = 0 \<or> nd_cols src = 0 \<or> \<not> (nd_chans src = 3 \<or> nd_chans src = 4)
      then Inl (LibError ''cvtColor'')
      else Inr (grey_of weigh src))"

text \<open>
  What the script takes from OpenCV and does not compute itself: loading the cascade,
  the detector, the grey weighting, and which pixels a rectangle outline of a given
  thickness covers in an image of a given size. The classifier handle \<open>'c\<close> and the
  float type \<open>'f\<close> of the scale factor are opaque: the script only passes them on.
  Nothing is assumed of the detector beyond its being a function of its arguments: not
  that it returns fewer regions for a larger \<^verbatim>\<open>minNeighbors\<close>, nor that its regions
  lie inside the image. Nothing is assumed of the slider readings either: the script
  checks no range itself.
\<close>

record ('c, 'f) cv_env =
  cv_CascadeClassifier :: "pyexc + 'c"
  cv_detectMultiScale :: "'c \<Rightarrow> ndarray \<Rightarrow> 'f \<Rightarrow> int \<Rightarrow> int \<times> int \<Rightarrow> pyexc + region list"
  cv_luma :: "u8 \<Rightarrow> u8 \<Rightarrow> u8 \<Rightarrow> u8"
  cv_outline :: "nat \<Rightarrow> nat \<Rightarrow> i32 \<times> i32 \<Rightarrow> i32 \<times> i32 \<Rightarrow> nat \<Rightarrow> (nat \<times> nat) list"

definition saturate_u8 :: "int \<Rightarrow> u8" where
  \<comment> \<open>how OpenCV stores a colour component into a byte\<close>
  "saturate_u8 v = (if v < 0 then 0 else if 255 < v then 255 else word_of_int v)"

definition colour_pixel :: "int \<times> int \<times> int \<Rightarrow> pixel" where
  "colour_pixel c = (case c of (c0, c1, c2) \<Rightarrow> [saturate_u8 c0, saturate_u8 c1, saturate_u8 c2])"

definition set_pixel :: "pixel \<Rightarrow> ndarray \<Rightarrow> nat \<times> nat \<Rightarrow> ndarray" where
  \<comment> \<open>a write at (row, column); the drawing routines clip at the image border\<close>
  "set_pixel c a rc =
     (case rc of (r, k) \<Rightarrow>
        if r < nd_rows a \<and> k < nd_cols a
        then a\<lparr>nd_data := (nd_data a)[r * nd_cols a + k := c]\<rparr>
        else a)"

definition paint_rectangle ::
  "('c, 'f) cv_env \<Rightarrow> ndarray \<Rightarrow> i32 \<times> i32 \<Rightarrow> i32 \<times> i32 \<Rightarrow> int \<times> int \<times> int \<Rightarrow> nat \<Rightarrow> ndarray" where
  \<comment> \<open>the pixels of an array after \<^verbatim>\<open>cv2.rectangle(img, pt1, pt2, color, thickness)\<close>\<close>
  "paint_rectangle env img pt1 pt2 color thickness =
     foldl (set_pixel (colour_pixel color)) img
       (cv_outline env (nd_rows img) (nd_cols img) pt1 pt2 thickness)"

definition rectangle ::
  "('c, 'f) cv_env \<Rightarrow> ndarray list \<Rightarrow> nat \<Rightarrow> i32 \<times> i32 \<Rightarrow> i32 \<times> i32 \<Rightarrow> int \<times> int \<times> int \<Rightarrow> nat
     \<Rightarrow> ndarray list" where
  \<comment> \<open>\<^verbatim>\<open>cv2.rectangle\<close> draws in place: the array at the address changes\<close>
  "rectangle env h a pt1 pt2 color thickness =
     h[a := paint_rectangle env (h ! a) pt1 pt2 color thickness]"

fun draw_faces ::
  "('c, 'f) cv_env \<Rightarrow> nat \<Rightarrow> int \<times> int \<times> int \<Rightarrow> ndarray list \<Rightarrow> region list \<Rightarrow> ndarray list" where
  \<comment> \<open>\<^verbatim>\<open>for (x, y, w, h) in faces: cv2.rectangle(result_image, (x, y), (x+w, y+h), bgr_color, 2)\<close>\<close>
  "draw_faces env a bgr_color h [] = h"
| "draw_faces env a bgr_color h ((x, y, w, hh) # faces) =
     draw_faces env a bgr_color (rectangle env h a (x, y) (x + w, y + hh) bgr_color 2) faces"

fun annotate ::
  "('c, 'f) cv_env \<Rightarrow> int \<times> int \<times> int \<Rightarrow> ndarray \<Rightarrow> region list \<Rightarrow> ndarray" where
  \<comment> \<open>the pixels of one array after the loop over \<open>faces\<close> has drawn on it\<close>
  "annotate env bgr_color img [] = img"
| "annotate env bgr_color img ((x, y, w, hh) # faces) =
     annotate env bgr_color (paint_rectangle env img (x, y) (x + w, y + hh) bgr_color 2) faces"

subsection \<open>The timestamp of the file name\<close>

record datetime =
  dt_year :: nat
  dt_month :: nat
  dt_day :: nat
  dt_hour :: nat
  dt_minute :: nat
  dt_second :: nat

fun decimal :: "nat \<Rightarrow> string" where
  "decimal n = (if n < 10 then [char_of (48 + n)] else decimal (n div 10) @ [char_of (48 + n mod 10)])"

declare decimal.simps [simp del]

definition zpad :: "nat \<Rightarrow> nat \<Rightarrow> string" where
  \<comment> \<open>a decimal number, zero-padded on the left to a width\<close>
  "zpad width n = replicate (width - length (decimal n)) CHR ''0'' @ decimal n"

definition strftime :: "datetime \<Rightarrow> string" where
  \<comment> \<open>\<^verbatim>\<open>now.strftime("%Y%m%d_%H%M%S")\<close>; the four-digit padding of \<^verbatim>\<open>%Y\<close> is the
     platform's for years below 1000\<close>
  "strftime t =
     zpad 4 (dt_year t) @ zpad 2 (dt_month t) @ zpad 2 (dt_day t) @ ''_'' @
     zpad 2 (dt_hour t) @ zpad 2 (dt_minute t) @ zpad 2 (dt_second t)"

definition filename :: "datetime \<Rightarrow> string" where
  "filename t = ''face_detection_result_'' @ strftime t @ ''.png''"

definition is_digit :: "char \<Rightarrow> bool" where
  "is_digit c \<longleftrightarrow> 48 \<le> (of_char c :: nat) \<and> (of_char c :: nat) \<le> 57"

section \<open>The script\<close>

text \<open>
  One run of \<^verbatim>\<open>app.py\<close> reads the widgets, and renders elements in order. The
  elements that carry data are events of the run; headings, separators and the static
  help texts are left out. The run also records each call of the detector with its
  arguments. The PNG encoder is PIL's: \<open>PNG img\<close> stands for the bytes
  \<^verbatim>\<open>result_pil.save(img_buffer, format='PNG')\<close> writes for the image.
\<close>

record 'f widgets =
  scale_factor :: 'f          \<comment> \<open>the reading of the slider "Scale Factor"\<close>
  min_neighbors :: int        \<comment> \<open>the reading of the slider "Min Neighbors"\<close>
  rect_color :: string        \<comment> \<open>the reading of the colour picker\<close>
  uploaded_file :: "(pyexc + ndarray) option"
    \<comment> \<open>\<open>None\<close>: no file; else what \<^verbatim>\<open>np.array(Image.open(uploaded_file))\<close> gives\<close>

datatype png = PNG ndarray

datatype 'f ui_event =
    Image_original ndarray             \<comment> \<open>\<^verbatim>\<open>st.image(image, caption="Uploaded Image")\<close>\<close>
  | Image_result ndarray nat           \<comment> \<open>\<^verbatim>\<open>st.image(result_pil, caption=f"Detected {len(faces)} face(s)")\<close>\<close>
  | Metric_faces nat                   \<comment> \<open>\<^verbatim>\<open>st.metric("Faces Detected", len(faces))\<close>\<close>
  | Metric_scale 'f
  | Metric_neighbors int
  | Face_line nat i32 i32 i32 i32      \<comment> \<open>\<^verbatim>\<open>Face {i+1}: Position (x, y), Size (w, h)\<close>\<close>
  | Download png string                \<comment> \<open>\<^verbatim>\<open>st.download_button(data, file_name, mime="image/png")\<close>\<close>
  | Success nat
  | Warning_no_faces
  | Error_model pyexc                  \<comment> \<open>\<^verbatim>\<open>st.error(f"Error loading face detection model: {str(e)}")\<close>\<close>
  | Info_install                       \<comment> \<open>\<^verbatim>\<open>st.info("Make sure OpenCV is properly installed ...")\<close>\<close>
  | Info_upload                        \<comment> \<open>\<^verbatim>\<open>st.info("Please upload an image ...")\<close> and the feature list\<close>
  | Footer

record 'f detect_call =
  dc_image :: ndarray
  dc_scaleFactor :: 'f
  dc_minNeighbors :: int
  dc_minSize :: "int \<times> int"

record 'f world =
  w_heap :: "ndarray list"
  w_ui :: "'f ui_event list"
  w_calls :: "'f detect_call list"

datatype 'w outcome =
    Finished 'w          \<comment> \<open>the script ran to its last line\<close>
  | Uncaught pyexc 'w    \<comment> \<open>an exception left the script\<close>

fun final_world :: "'w outcome \<Rightarrow> 'w" where
  "final_world (Finished w) = w"
| "final_world (Uncaught e w) = w"

fun uncaught :: "'w outcome \<Rightarrow> pyexc option" where
  "uncaught (Finished w) = None"
| "uncaught (Uncaught e w) = Some e"

definition alloc :: "ndarray \<Rightarrow> 'f world \<Rightarrow> nat \<times> 'f world" where
  \<comment> \<open>a new array object: a fresh address\<close>
  "alloc a w = (length (w_heap w), w\<lparr>w_heap := w_heap w @ [a]\<rparr>)"

definition emit :: "'f ui_event list \<Rightarrow> 'f world \<Rightarrow> 'f world" where
  "emit es w = w\<lparr>w_ui := w_ui w @ es\<rparr>"

definition log_call :: "'f detect_call \<Rightarrow> 'f world \<Rightarrow> 'f world" where
  "log_call c w = w\<lparr>w_calls := w_calls w @ [c]\<rparr>"

fun face_lines :: "nat \<Rightarrow> region list \<Rightarrow> 'f ui_event list" where
  \<comment> \<open>\<^verbatim>\<open>for i, (x, y, w, h) in enumerate(faces): st.write(...)\<close>\<close>
  "face_lines i [] = []"
| "face_lines i ((x, y, w, hh) # faces) = Face_line (i + 1) x y w hh # face_lines (i + 1) faces"

definition try_block ::
  "('c, 'f) cv_env \<Rightarrow> datetime \<Rightarrow> 'f widgets \<Rightarrow> nat \<Rightarrow> 'f world \<Rightarrow> pyexc option \<times> 'f world" where
  \<comment> \<open>lines 84 to 159, the body of \<^verbatim>\<open>try\<close>; \<open>opencv_image\<close> is an address. The
     result is the exception that left the body, if any, and the world at that point.\<close>
  "try_block env now inp opencv_image w =
     (case cv_CascadeClassifier env of
        Inl e \<Rightarrow> (Some e, w)
      | Inr face_cascade \<Rightarrow>
     (case cvtColor_BGR2GRAY (cv_luma env) (w_heap w ! opencv_image) of
        Inl e \<Rightarrow> (Some e, w)
      | Inr gray_v \<Rightarrow>
     (case alloc gray_v w of (gray, w1) \<Rightarrow>
      let w2 = log_call \<lparr>dc_image = w_heap w1 ! gray, dc_scaleFactor = scale_factor inp,
                         dc_minNeighbors = min_neighbors inp, dc_minSize = (30, 30)\<rparr> w1
      in
     (case cv_detectMultiScale env face_cascade (w_heap w1 ! gray)
             (scale_factor inp) (min_neighbors inp) (30, 30) of
        Inl e \<Rightarrow> (Some e, w2)
      | Inr faces \<Rightarrow>
     (case alloc (w_heap w2 ! opencv_image) w2 of (result_image, w3) \<Rightarrow>
     (case hex_to_bgr (rect_color inp) of
        Inl e \<Rightarrow> (Some e, w3)
      | Inr bgr_color \<Rightarrow>
      let w4 = w3\<lparr>w_heap := draw_faces env result_image bgr_color (w_heap w3) faces\<rparr>
      in
     (case cvtColor_BGR2RGB (w_heap w4 ! result_image) of
        Inl e \<Rightarrow> (Some e, w4)
      | Inr rgb_v \<Rightarrow>
     (case alloc rgb_v w4 of (result_image_rgb, w5) \<Rightarrow>
      let result_pil = w_heap w5 ! result_image_rgb;
          n = length faces
      in (None,
          emit ([Image_result result_pil n,
                 Metric_faces n, Metric_scale (scale_factor inp),
                 Metric_neighbors (min_neighbors inp)]
                @ (if n > 0 then face_lines 0 faces else [])
                @ [Download (PNG result_pil) (filename now)]
                @ [if n > 0 then Success n else Warning_no_faces]) w5)))))))))"

definition script ::
  "('c, 'f) cv_env \<Rightarrow> datetime \<Rightarrow> 'f widgets \<Rightarrow> ndarray list \<Rightarrow> 'f world outcome" where
  \<comment> \<open>one run: an empty page, no detector call yet, and the store as it is. \<open>now\<close> is
     what \<^verbatim>\<open>datetime.now()\<close> reads at line 143.\<close>
  "script env now inp h0 =
     (let w0 = \<lparr>w_heap = h0, w_ui = [], w_calls = []\<rparr>
      in case uploaded_file inp of
           None \<Rightarrow> Finished (emit [Info_upload, Footer] w0)
         | Some (Inl e) \<Rightarrow> Uncaught e w0
         | Some (Inr image_v) \<Rightarrow>
             (case alloc image_v w0 of (image_array, w1) \<Rightarrow>
             (case cvtColor_RGB2BGR (w_heap w1 ! image_array) of
                Inl e \<Rightarrow> Uncaught e w1
              | Inr bgr_v \<Rightarrow>
             (case alloc bgr_v w1 of (opencv_image, w2) \<Rightarrow>
              let w3 = emit [Image_original image_v] w2
              in (case try_block env now inp opencv_image w3 of
                    (None, w4) \<Rightarrow> Finished (emit [Footer] w4)
                  | (Some e, w4) \<Rightarrow> Finished (emit [Error_model e, Info_install, Footer] w4))))))"

definition the_call :: "('c, 'f) cv_env \<Rightarrow> 'f widgets \<Rightarrow> ndarray \<Rightarrow> 'f detect_call" where
  \<comment> \<open>the one call of the detector a run makes, on the grey version of \<open>img\<close>\<close>
  "the_call env inp img = \<lparr>dc_image = grey_of (cv_luma env) img, dc_scaleFactor = scale_factor inp,
                         dc_minNeighbors = min_neighbors inp, dc_minSize = (30, 30)\<rparr>"

subsection \<open>What a run shows\<close>

definition run_ui :: "'f world outcome \<Rightarrow> 'f ui_event list" where
  "run_ui r = w_ui (final_world r)"

definition run_calls :: "'f world outcome \<Rightarrow> 'f detect_call list" where
  "run_calls r = w_calls (final_world r)"

definition run_heap :: "'f world outcome \<Rightarrow> ndarray list" where
  "run_heap r = w_heap (final_world r)"

fun annotated_images :: "'f ui_event list \<Rightarrow> ndarray list" where
  "annotated_images [] = []"
| "annotated_images (Image_result img n # es) = img # annotated_images es"
| "annotated_images (e # es) = annotated_images es"

fun reported_counts :: "'f ui_event list \<Rightarrow> nat list" where
  "reported_counts [] = []"
| "reported_counts (Metric_faces n # es) = n # reported_counts es"
| "reported_counts (e # es) = reported_counts es"

fun listed_regions :: "'f ui_event list \<Rightarrow> region list" where
  "listed_regions [] = []"
| "listed_regions (Face_line i x y w hh # es) = (x, y, w, hh) # listed_regions es"
| "listed_regions (e # es) = listed_regions es"

fun downloads :: "'f ui_event list \<Rightarrow> (png \<times> string) list" where
  "downloads [] = []"
| "downloads (Download d f # es) = (d, f) # downloads es"
| "downloads (e # es) = downloads es"

fun shown_errors :: "'f ui_event list \<Rightarrow> pyexc list" where
  "shown_errors [] = []"
| "shown_errors (Error_model e # es) = e # shown_errors es"
| "shown_errors (e # es) = shown_errors es"

subsection \<open>The round trip through grey, in the specification's words\<close>

definition spec_gray_round_trip :: "(u8 \<Rightarrow> u8 \<Rightarrow> u8 \<Rightarrow> u8) \<Rightarrow> ndarray \<Rightarrow> ndarray" where
  \<comment> \<open>an RGB image converted to grey and back to colour: each pixel becomes three
     copies of its grey value. The script computes no such image.\<close>
  "spec_gray_round_trip weigh img =
     img\<lparr>nd_chans := 3,
         nd_data := map (\<lambda>p. let v = weigh (p ! 2) (p ! 1) (p ! 0) in [v, v, v]) (nd_data img)\<rparr>"

subsection \<open>A sample environment and sample inputs\<close>

text \<open>
  Concrete runs need a concrete library. The sample detector knows nothing of faces: it
  returns a fixed list. The sample outline covers the border of the rectangle between the
  two corners, whatever the thickness. The sample grey weighting is 0.114, 0.587, 0.299 for
  blue, green, red, in 14-bit fixed point.
\<close>

definition sample_luma :: "u8 \<Rightarrow> u8 \<Rightarrow> u8 \<Rightarrow> u8" where
  "sample_luma b g r =
     word_of_nat ((unat b * 1868 + unat g * 9617 + unat r * 4899 + 8192) div 16384)"

definition sample_outline :: "nat \<Rightarrow> nat \<Rightarrow> i32 \<times> i32 \<Rightarrow> i32 \<times> i32 \<Rightarrow> nat \<Rightarrow> (nat \<times> nat) list" where
  "sample_outline rows cols pt1 pt2 thickness =
     (case (pt1, pt2) of ((x1, y1), (x2, y2)) \<Rightarrow>
        [(unat y1, unat x1), (unat y1, unat x2), (unat y2, unat x1), (unat y2, unat x2)])"

definition sample_env :: "pyexc + unit \<Rightarrow> region list \<Rightarrow> (unit, rat) cv_env" where
  "sample_env loaded faces =
     \<lparr>cv_CascadeClassifier = loaded,
      cv_detectMultiScale = (\<lambda>c img sf mn ms. Inr faces),
      cv_luma = sample_luma,
      cv_outline = sample_outline\<rparr>"

definition env_no_faces :: "(unit, rat) cv_env" where
  "env_no_faces = sample_env (Inr ()) []"

definition env_one_face :: "(unit, rat) cv_env" where
  "env_one_face = sample_env (Inr ()) [(0, 0, 1, 1)]"

definition env_no_model :: "(unit, rat) cv_env" where
  "env_no_model = sample_env (Inl (LibError ''cascade'')) []"

definition sample_image :: ndarray where
  "sample_image =
     \<lparr>nd_rows = 2, nd_cols = 3, nd_chans = 3,
      nd_data = [[255, 0, 0], [0, 255, 0], [0, 0, 255],
                 [10, 20, 30], [40, 50, 60], [70, 80, 90]]\<rparr>"

definition red_image :: ndarray where
  "red_image = \<lparr>nd_rows = 1, nd_cols = 1, nd_chans = 3, nd_data = [[255, 0, 0]]\<rparr>"

definition sample_widgets :: "string \<Rightarrow> ndarray \<Rightarrow> rat widgets" where
  \<comment> \<open>the sliders at their defaults, 1.3 and 5\<close>
  "sample_widgets colour img =
     \<lparr>scale_factor = 13 / 10, min_neighbors = 5, rect_color = colour,
      uploaded_file = Some (Inr img)\<rparr>"

definition sample_now :: datetime where
  "sample_now = \<lparr>dt_year = 2026, dt_month = 11, dt_day = 3,
                  dt_hour = 20, dt_minute = 18, dt_second = 5\<rparr>"

definition other_now :: datetime where
  "other_now = \<lparr>dt_year = 2027, dt_month = 1, dt_day = 31,
                 dt_hour = 0, dt_minute = 0, dt_second = 59\<rparr>"

section \<open>The colour conversion\<close>

lemma hex_val_facts:
  assumes "hex_val c = Some d"
  shows "\<not> is_py_space c" and "c \<noteq> CHR ''+''" and "c \<noteq> CHR ''-''" and "c \<noteq> CHR ''_''"
    and "c \<noteq> CHR ''x''" and "c \<noteq> CHR ''X''" and "c \<noteq> CHR ''#''" and "d < 16"
  using assms by (auto simp: hex_val_def is_py_space_def Let_def split: if_splits)

lemma py_int16_pair:
  assumes "hex_val a = Some da" and "hex_val b = Some db"
  shows "py_int16 [a, b] = Inr (int (16 * da + db))"
  using hex_val_facts [OF assms(1)] hex_val_facts [OF assms(2)] assms
  by (simp add: py_int16_def skip_sign_def skip_prefix_def)

text \<open>
  C1. A colour string \<^verbatim>\<open>#RRGGBB\<close> of six hexadecimal digits converts without error;
  each pair is read as the number \<open>16 * high + low\<close>, which fits in eight bits, and the
  triple comes back as (B, G, R).
\<close>

theorem hex_to_bgr_rrggbb:
  assumes "hex_val r1 = Some dr1" and "hex_val r2 = Some dr2"
    and "hex_val g1 = Some dg1" and "hex_val g2 = Some dg2"
    and "hex_val b1 = Some db1" and "hex_val b2 = Some db2"
  shows "hex_to_bgr [CHR ''#'', r1, r2, g1, g2, b1, b2] =
           Inr (int (16 * db1 + db2), int (16 * dg1 + dg2), int (16 * dr1 + dr2))
         \<and> 16 * db1 + db2 < 256 \<and> 16 * dg1 + dg2 < 256 \<and> 16 * dr1 + dr2 < 256"
proof -
  have strip: "lstrip_hash [CHR ''#'', r1, r2, g1, g2, b1, b2] = [r1, r2, g1, g2, b1, b2]"
    using hex_val_facts(7) [OF assms(1)] by (simp add: lstrip_hash_def)
  have conv: "hex_to_bgr [CHR ''#'', r1, r2, g1, g2, b1, b2] =
      Inr (int (16 * db1 + db2), int (16 * dg1 + dg2), int (16 * dr1 + dr2))"
    unfolding hex_to_bgr_def strip
    by (simp add: py_slice_def py_int16_pair [OF assms(1,2)] py_int16_pair [OF assms(3,4)]
        py_int16_pair [OF assms(5,6)])
  have bounds: "16 * db1 + db2 < 256" "16 * dg1 + dg2 < 256" "16 * dr1 + dr2 < 256"
    using hex_val_facts(8) [OF assms(1)] hex_val_facts(8) [OF assms(2)]
      hex_val_facts(8) [OF assms(3)] hex_val_facts(8) [OF assms(4)]
      hex_val_facts(8) [OF assms(5)] hex_val_facts(8) [OF assms(6)]
    by simp_all
  from conv bounds show ?thesis by simp
qed

theorem hex_to_bgr_rrggbb_witness: "hex_to_bgr ''#00FF00'' = Inr (0, 255, 0)"
proof -
  have z: "hex_val CHR ''0'' = Some 0" by (simp add: hex_val_def)
  have f: "hex_val CHR ''F'' = Some 15" by (simp add: hex_val_def)
  show ?thesis using hex_to_bgr_rrggbb [OF z z f f z z] by simp
qed

section \<open>The paths of a run\<close>


lemma swap_channels_fields:
  "nd_rows (swap_channels a) = nd_rows a" "nd_cols (swap_channels a) = nd_cols a"
  "nd_chans (swap_channels a) = 3" "nd_data (swap_channels a) = map swap_rb (nd_data a)"
  by (simp_all add: swap_channels_def)

lemma set_pixel_shape:
  "nd_rows (set_pixel c a rc) = nd_rows a" "nd_cols (set_pixel c a rc) = nd_cols a"
  "nd_chans (set_pixel c a rc) = nd_chans a" "length (nd_data (set_pixel c a rc)) = length (nd_data a)"
  by (simp_all add: set_pixel_def split: prod.splits)

lemma foldl_set_pixel_shape:
  "nd_rows (foldl (set_pixel c) a rcs) = nd_rows a \<and> nd_cols (foldl (set_pixel c) a rcs) = nd_cols a
   \<and> nd_chans (foldl (set_pixel c) a rcs) = nd_chans a
   \<and> length (nd_data (foldl (set_pixel c) a rcs)) = length (nd_data a)"
  by (induction rcs arbitrary: a) (simp_all add: set_pixel_shape)

lemma paint_rectangle_shape:
  "nd_rows (paint_rectangle env a p q c t) = nd_rows a"
  "nd_cols (paint_rectangle env a p q c t) = nd_cols a"
  "nd_chans (paint_rectangle env a p q c t) = nd_chans a"
  "length (nd_data (paint_rectangle env a p q c t)) = length (nd_data a)"
  by (simp_all add: paint_rectangle_def foldl_set_pixel_shape)

lemma annotate_shape:
  "nd_rows (annotate env c a fs) = nd_rows a \<and> nd_cols (annotate env c a fs) = nd_cols a
   \<and> nd_chans (annotate env c a fs) = nd_chans a
   \<and> length (nd_data (annotate env c a fs)) = length (nd_data a)"
  by (induction env c a fs rule: annotate.induct) (simp_all add: paint_rectangle_shape)

lemma draw_faces_heap:
  "a < length h \<Longrightarrow> draw_faces env a c h fs = h[a := annotate env c (h ! a) fs]"
  by (induction env a c h fs rule: draw_faces.induct) (simp_all add: rectangle_def)

lemma cvtColor_BGR2RGB_ok:
  "nd_rows a \<noteq> 0 \<Longrightarrow> nd_cols a \<noteq> 0 \<Longrightarrow> nd_chans a = 3 \<Longrightarrow> cvtColor_BGR2RGB a = Inr (swap_channels a)"
  by (simp add: cvtColor_BGR2RGB_def cvtColor_RGB2BGR_def)

lemma cvtColor_BGR2GRAY_ok:
  "nd_rows a \<noteq> 0 \<Longrightarrow> nd_cols a \<noteq> 0 \<Longrightarrow> nd_chans a = 3 \<Longrightarrow> cvtColor_BGR2GRAY wg a = Inr (grey_of wg a)"
  by (simp add: cvtColor_BGR2GRAY_def)

lemma try_block_no_model:
  assumes "cv_CascadeClassifier env = Inl e"
  shows "try_block env now inp a w = (Some e, w)"
  using assms by (simp add: try_block_def)

lemma try_block_detect_fails:
  assumes "cv_CascadeClassifier env = Inr c"
    and "w_heap w ! a = img" and "nd_rows img \<noteq> 0" and "nd_cols img \<noteq> 0" and "nd_chans img = 3"
    and "cv_detectMultiScale env c (grey_of (cv_luma env) img) (scale_factor inp) (min_neighbors inp) (30, 30) = Inl e"
  shows "try_block env now inp a w =
     (Some e, w\<lparr>w_heap := w_heap w @ [grey_of (cv_luma env) img],
               w_calls := w_calls w @ [the_call env inp img]\<rparr>)"
  using assms
  by (simp add: try_block_def cvtColor_BGR2GRAY_ok alloc_def log_call_def the_call_def)

lemma try_block_colour_fails:
  assumes "cv_CascadeClassifier env = Inr c"
    and "a < length (w_heap w)"
    and "w_heap w ! a = img" and "nd_rows img \<noteq> 0" and "nd_cols img \<noteq> 0" and "nd_chans img = 3"
    and "cv_detectMultiScale env c (grey_of (cv_luma env) img) (scale_factor inp) (min_neighbors inp) (30, 30) = Inr faces"
    and "hex_to_bgr (rect_color inp) = Inl e"
  shows "try_block env now inp a w =
     (Some e, w\<lparr>w_heap := w_heap w @ [grey_of (cv_luma env) img, img],
               w_calls := w_calls w @ [the_call env inp img]\<rparr>)"
  using assms
  by (simp add: try_block_def cvtColor_BGR2GRAY_ok alloc_def log_call_def the_call_def nth_append)

lemma try_block_success:
  assumes "cv_CascadeClassifier env = Inr c"
    and "a < length (w_heap w)"
    and "w_heap w ! a = img" and "nd_rows img \<noteq> 0" and "nd_cols img \<noteq> 0" and "nd_chans img = 3"
    and "cv_detectMultiScale env c (grey_of (cv_luma env) img) (scale_factor inp) (min_neighbors inp) (30, 30) = Inr faces"
    and "hex_to_bgr (rect_color inp) = Inr colour"
  shows "try_block env now inp a w =
     (None, w\<lparr>w_heap := w_heap w @ [grey_of (cv_luma env) img, annotate env colour img faces,
                                      swap_channels (annotate env colour img faces)],
             w_ui := w_ui w @
               ([Image_result (swap_channels (annotate env colour img faces)) (length faces),
                 Metric_faces (length faces), Metric_scale (scale_factor inp),
                 Metric_neighbors (min_neighbors inp)]
                @ (if length faces > 0 then face_lines 0 faces else [])
                @ [Download (PNG (swap_channels (annotate env colour img faces))) (filename now)]
                @ [if length faces > 0 then Success (length faces) else Warning_no_faces]),
             w_calls := w_calls w @ [the_call env inp img]\<rparr>)"
proof -
  let ?g = "grey_of (cv_luma env) img"
  let ?res = "annotate env colour img faces"
  have rgb_ok: "cvtColor_BGR2RGB ?res = Inr (swap_channels ?res)"
    using assms(4-6) by (simp add: cvtColor_BGR2RGB_ok annotate_shape)
  have cell: "(w_heap w @ [?g, img]) ! a = img"
    using assms(2,3) by (simp add: nth_append)
  have drawn: "draw_faces env (Suc (length (w_heap w))) colour (w_heap w @ [?g, img]) faces
      = w_heap w @ [?g, ?res]"
    by (simp add: draw_faces_heap nth_append list_update_append)
  show ?thesis
    using assms cell
    by (simp add: try_block_def cvtColor_BGR2GRAY_ok alloc_def log_call_def the_call_def
        nth_append drawn rgb_ok Let_def emit_def)
qed


lemma script_no_upload:
  assumes "uploaded_file inp = None"
  shows "script env now inp h0 = Finished \<lparr>w_heap = h0, w_ui = [Info_upload, Footer], w_calls = []\<rparr>"
  using assms by (simp add: script_def emit_def)

lemma script_decode_fails:
  assumes "uploaded_file inp = Some (Inl e)"
  shows "script env now inp h0 = Uncaught e \<lparr>w_heap = h0, w_ui = [], w_calls = []\<rparr>"
  using assms by (simp add: script_def)

lemma script_convert_fails:
  assumes "uploaded_file inp = Some (Inr arr)"
    and "nd_rows arr = 0 \<or> nd_cols arr = 0 \<or> \<not> (nd_chans arr = 3 \<or> nd_chans arr = 4)"
  shows "script env now inp h0 =
           Uncaught (LibError ''cvtColor'') \<lparr>w_heap = h0 @ [arr], w_ui = [], w_calls = []\<rparr>"
  using assms by (simp add: script_def alloc_def cvtColor_RGB2BGR_def)

lemma script_enters_try:
  assumes "uploaded_file inp = Some (Inr arr)"
    and "nd_rows arr \<noteq> 0" and "nd_cols arr \<noteq> 0" and "nd_chans arr = 3 \<or> nd_chans arr = 4"
  shows "script env now inp h0 =
     (case try_block env now inp (Suc (length h0))
             \<lparr>w_heap = h0 @ [arr, swap_channels arr], w_ui = [Image_original arr], w_calls = []\<rparr> of
        (None, w4) \<Rightarrow> Finished (emit [Footer] w4)
      | (Some e, w4) \<Rightarrow> Finished (emit [Error_model e, Info_install, Footer] w4))"
  using assms by (auto simp: script_def alloc_def cvtColor_RGB2BGR_def emit_def Let_def)

lemma script_no_model:
  assumes "uploaded_file inp = Some (Inr arr)"
    and "nd_rows arr \<noteq> 0" and "nd_cols arr \<noteq> 0" and "nd_chans arr = 3 \<or> nd_chans arr = 4"
    and "cv_CascadeClassifier env = Inl e"
  shows "script env now inp h0 =
     Finished \<lparr>w_heap = h0 @ [arr, swap_channels arr],
               w_ui = [Image_original arr, Error_model e, Info_install, Footer],
               w_calls = []\<rparr>"
  by (simp add: script_enters_try [OF assms(1-4)] try_block_no_model [OF assms(5)] emit_def)

lemma script_detect_fails:
  fixes env :: "('c, 'f) cv_env"
  assumes "uploaded_file inp = Some (Inr arr)"
    and "nd_rows arr \<noteq> 0" and "nd_cols arr \<noteq> 0" and "nd_chans arr = 3 \<or> nd_chans arr = 4"
    and "cv_CascadeClassifier env = Inr c"
    and "cv_detectMultiScale env c (grey_of (cv_luma env) (swap_channels arr))
           (scale_factor inp) (min_neighbors inp) (30, 30) = Inl e"
  shows "script env now inp h0 =
     Finished \<lparr>w_heap = h0 @ [arr, swap_channels arr, grey_of (cv_luma env) (swap_channels arr)],
               w_ui = [Image_original arr, Error_model e, Info_install, Footer],
               w_calls = [the_call env inp (swap_channels arr)]\<rparr>"
proof -
  let ?w = "\<lparr>w_heap = h0 @ [arr, swap_channels arr], w_ui = [Image_original arr], w_calls = []\<rparr>
              :: 'f world"
  have tb: "try_block env now inp (Suc (length h0)) ?w =
      (Some e, ?w\<lparr>w_heap := w_heap ?w @ [grey_of (cv_luma env) (swap_channels arr)],
                   w_calls := w_calls ?w @ [the_call env inp (swap_channels arr)]\<rparr>)"
    using assms(2,3,6)
    by (intro try_block_detect_fails [OF assms(5)]) (simp_all add: nth_append swap_channels_fields)
  show ?thesis
    by (simp add: script_enters_try [OF assms(1-4)] tb emit_def)
qed

lemma script_colour_fails:
  fixes env :: "('c, 'f) cv_env"
  assumes "uploaded_file inp = Some (Inr arr)"
    and "nd_rows arr \<noteq> 0" and "nd_cols arr \<noteq> 0" and "nd_chans arr = 3 \<or> nd_chans arr = 4"
    and "cv_CascadeClassifier env = Inr c"
    and "cv_detectMultiScale env c (grey_of (cv_luma env) (swap_channels arr))
           (scale_factor inp) (min_neighbors inp) (30, 30) = Inr faces"
    and "hex_to_bgr (rect_color inp) = Inl e"
  shows "script env now inp h0 =
     Finished \<lparr>w_heap = h0 @ [arr, swap_channels arr, grey_of (cv_luma env) (swap_channels arr),
                               swap_channels arr],
               w_ui = [Image_original arr, Error_model e, Info_install, Footer],
               w_calls = [the_call env inp (swap_channels arr)]\<rparr>"
proof -
  let ?w = "\<lparr>w_heap = h0 @ [arr, swap_channels arr], w_ui = [Image_original arr], w_calls = []\<rparr>
              :: 'f world"
  have tb: "try_block env now inp (Suc (length h0)) ?w =
      (Some e, ?w\<lparr>w_heap := w_heap ?w @ [grey_of (cv_luma env) (swap_channels arr), swap_channels arr],
                   w_calls := w_calls ?w @ [the_call env inp (swap_channels arr)]\<rparr>)"
    using assms(2,3,6,7)
    by (intro try_block_colour_fails [OF assms(5)]) (simp_all add: nth_append swap_channels_fields)
  show ?thesis
    by (simp add: script_enters_try [OF assms(1-4)] tb emit_def)
qed

lemma script_success:
  fixes env :: "('c, 'f) cv_env"
  assumes "uploaded_file inp = Some (Inr arr)"
    and "nd_rows arr \<noteq> 0" and "nd_cols arr \<noteq> 0" and "nd_chans arr = 3 \<or> nd_chans arr = 4"
    and "cv_CascadeClassifier env = Inr c"
    and "cv_detectMultiScale env c (grey_of (cv_luma env) (swap_channels arr))
           (scale_factor inp) (min_neighbors inp) (30, 30) = Inr faces"
    and "hex_to_bgr (rect_color inp) = Inr colour"
  shows "script env now inp h0 =
     Finished \<lparr>w_heap = h0 @ [arr, swap_channels arr, grey_of (cv_luma env) (swap_channels arr),
                               annotate env colour (swap_channels arr) faces,
                               swap_channels (annotate env colour (swap_channels arr) faces)],
               w_ui = [Image_original arr,
                       Image_result (swap_channels (annotate env colour (swap_channels arr) faces))
                         (length faces),
                       Metric_faces (length faces), Metric_scale (scale_factor inp),
                       Metric_neighbors (min_neighbors inp)]
                      @ (if length faces > 0 then face_lines 0 faces else [])
                      @ [Download (PNG (swap_channels (annotate env colour (swap_channels arr) faces)))
                           (filename now),
                         if length faces > 0 then Success (length faces) else Warning_no_faces,
                         Footer],
               w_calls = [the_call env inp (swap_channels arr)]\<rparr>"
proof -
  let ?w = "\<lparr>w_heap = h0 @ [arr, swap_channels arr], w_ui = [Image_original arr], w_calls = []\<rparr>
              :: 'f world"
  note tb = try_block_success [OF assms(5), where w = ?w and a = "Suc (length h0)"
      and img = "swap_channels arr" and inp = inp and faces = faces and colour = colour and now = now]
  show ?thesis
    using assms(2,3,6,7)
    by (simp add: script_enters_try [OF assms(1-4)] tb emit_def nth_append swap_channels_fields)
qed

lemma script_paths [case_names no_upload decode_fails convert_fails no_model detect_fails colour_fails success]:
  fixes env :: "('c, 'f) cv_env" and inp :: "'f widgets"
  obtains "uploaded_file inp = None"
  | e where "uploaded_file inp = Some (Inl e)"
  | arr where "uploaded_file inp = Some (Inr arr)"
      and "nd_rows arr = 0 \<or> nd_cols arr = 0 \<or> \<not> (nd_chans arr = 3 \<or> nd_chans arr = 4)"
  | arr e where "uploaded_file inp = Some (Inr arr)"
      and "nd_rows arr \<noteq> 0" and "nd_cols arr \<noteq> 0" and "nd_chans arr = 3 \<or> nd_chans arr = 4"
      and "cv_CascadeClassifier env = Inl e"
  | arr c e where "uploaded_file inp = Some (Inr arr)"
      and "nd_rows arr \<noteq> 0" and "nd_cols arr \<noteq> 0" and "nd_chans arr = 3 \<or> nd_chans arr = 4"
      and "cv_CascadeClassifier env = Inr c"
      and "cv_detectMultiScale env c (grey_of (cv_luma env) (swap_channels arr))
             (scale_factor inp) (min_neighbors inp) (30, 30) = Inl e"
  | arr c faces e where "uploaded_file inp = Some (Inr arr)"
      and "nd_rows arr \<noteq> 0" and "nd_cols arr \<noteq> 0" and "nd_chans arr = 3 \<or> nd_chans arr = 4"
      and "cv_CascadeClassifier env = Inr c"
      and "cv_detectMultiScale env c (grey_of (cv_luma env) (swap_channels arr))
             (scale_factor inp) (min_neighbors inp) (30, 30) = Inr faces"
      and "hex_to_bgr (rect_color inp) = Inl e"
  | arr c faces colour where "uploaded_file inp = Some (Inr arr)"
      and "nd_rows arr \<noteq> 0" and "nd_cols arr \<noteq> 0" and "nd_chans arr = 3 \<or> nd_chans arr = 4"
      and "cv_CascadeClassifier env = Inr c"
      and "cv_detectMultiScale env c (grey_of (cv_luma env) (swap_channels arr))
             (scale_factor inp) (min_neighbors inp) (30, 30) = Inr faces"
      and "hex_to_bgr (rect_color inp) = Inr colour"
proof (cases "uploaded_file inp")
  case None
  then show ?thesis using that(1) by blast
next
  case (Some dec)
  show ?thesis
  proof (cases dec)
    case (Inl e)
    with Some show ?thesis using that(2) by blast
  next
    case (Inr arr)
    with Some have up: "uploaded_file inp = Some (Inr arr)" by simp
    show ?thesis
    proof (cases "nd_rows arr = 0 \<or> nd_cols arr = 0 \<or> \<not> (nd_chans arr = 3 \<or> nd_chans arr = 4)")
      case True
      with up show ?thesis using that(3) by blast
    next
      case False
      then have shape: "nd_rows arr \<noteq> 0" "nd_cols arr \<noteq> 0" "nd_chans arr = 3 \<or> nd_chans arr = 4"
        by simp_all
      show ?thesis
      proof (cases "cv_CascadeClassifier env")
        case (Inl e)
        then show ?thesis using that(4) [OF up shape] by blast
      next
        case load: (Inr c)
        show ?thesis
        proof (cases "cv_detectMultiScale env c (grey_of (cv_luma env) (swap_channels arr))
             (scale_factor inp) (min_neighbors inp) (30, 30)")
          case (Inl e)
          then show ?thesis using that(5) [OF up shape load] by blast
        next
          case det: (Inr faces)
          show ?thesis
          proof (cases "hex_to_bgr (rect_color inp)")
            case (Inl e)
            then show ?thesis using that(6) [OF up shape load det] by blast
          next
            case (Inr colour)
            then show ?thesis using that(7) [OF up shape load det] by blast
          qed
        qed
      qed
    qed
  qed
qed

lemma annotated_images_append:
  "annotated_images (xs @ ys) = annotated_images xs @ annotated_images ys"
  by (induction xs rule: annotated_images.induct) simp_all

lemma listed_regions_append:
  "listed_regions (xs @ ys) = listed_regions xs @ listed_regions ys"
  by (induction xs rule: listed_regions.induct) simp_all

lemma reported_counts_append:
  "reported_counts (xs @ ys) = reported_counts xs @ reported_counts ys"
  by (induction xs rule: reported_counts.induct) simp_all

lemma downloads_append:
  "downloads (xs @ ys) = downloads xs @ downloads ys"
  by (induction xs rule: downloads.induct) simp_all

lemma face_lines_projections:
  "annotated_images (face_lines i fs) = []"
  "reported_counts (face_lines i fs) = []"
  "downloads (face_lines i fs) = []"
  "listed_regions (face_lines i fs) = fs"
  by (induction i fs rule: face_lines.induct) simp_all

section \<open>The colour conversion on the sample strings, and what it raises\<close>

lemma hex_to_bgr_green: "hex_to_bgr ''#00FF00'' = Inr (0, 255, 0)"
  by (simp add: hex_to_bgr_def lstrip_hash_def py_slice_def py_int16_def skip_sign_def
      skip_prefix_def is_py_space_def hex_val_def)

lemma hex_to_bgr_bad: "hex_to_bgr ''#GG0000'' = Inl (ValueError ''GG'')"
  by (simp add: hex_to_bgr_def lstrip_hash_def py_slice_def py_int16_def skip_sign_def
      skip_prefix_def is_py_space_def hex_val_def)

lemma py_int16_raises: "py_int16 s = Inl e \<Longrightarrow> e = ValueError s"
  by (auto simp: py_int16_def split: prod.splits list.splits if_splits option.splits)

lemma hex_to_bgr_raises: "hex_to_bgr s = Inl e \<Longrightarrow> \<exists>lit. e = ValueError lit"
  by (auto simp: hex_to_bgr_def Let_def split: sum.splits dest: py_int16_raises)

section \<open>Facts about the sample environment\<close>

lemma sample_widgets_fields:
  "uploaded_file (sample_widgets col img) = Some (Inr img)"
  "rect_color (sample_widgets col img) = col"
  "scale_factor (sample_widgets col img) = 13 / 10"
  "min_neighbors (sample_widgets col img) = 5"
  by (simp_all add: sample_widgets_def)

lemma sample_env_fields:
  "cv_CascadeClassifier (sample_env loaded faces) = loaded"
  "cv_detectMultiScale (sample_env loaded faces) c g sf mn ms = Inr faces"
  "cv_luma (sample_env loaded faces) = sample_luma"
  "cv_outline (sample_env loaded faces) = sample_outline"
  by (simp_all add: sample_env_def)

lemma sample_luma_red: "sample_luma 0 0 255 = 76"
  by (simp add: sample_luma_def)

lemma sample_image_shape:
  "nd_rows sample_image \<noteq> 0" "nd_cols sample_image \<noteq> 0"
  "nd_chans sample_image = 3 \<or> nd_chans sample_image = 4"
  by (simp_all add: sample_image_def)

lemma sample_clock:
  "1000 \<le> dt_year sample_now" "dt_year sample_now \<le> 9999" "dt_month sample_now \<le> 12"
  "dt_day sample_now \<le> 31" "dt_hour sample_now < 24" "dt_minute sample_now < 60"
  "dt_second sample_now < 60"
  by (simp_all add: sample_now_def)

lemma sample_painted:
  "paint_rectangle env_one_face (swap_channels sample_image) (0, 0) (1, 1) (0, 255, 0) 2
   = \<lparr>nd_rows = 2, nd_cols = 3, nd_chans = 3,
      nd_data = [[0, 255, 0], [0, 255, 0], [255, 0, 0],
                 [0, 255, 0], [0, 255, 0], [90, 80, 70]]\<rparr>"
  by (simp add: paint_rectangle_def env_one_face_def sample_env_fields sample_outline_def
      swap_channels_def swap_rb_def sample_image_def set_pixel_def colour_pixel_def saturate_u8_def)

section \<open>Annotation\<close>

lemma swap_rb_twice: "length p = 3 \<Longrightarrow> swap_rb (swap_rb p) = p"
proof -
  assume "length p = 3"
  then obtain a b c where "p = [a, b, c]"
    by (cases p; cases "tl p"; cases "tl (tl p)") auto
  then show ?thesis by (simp add: swap_rb_def)
qed

lemma swap_channels_twice:
  assumes "wf_ndarray arr" and "nd_chans arr = 3"
  shows "swap_channels (swap_channels arr) = arr"
proof -
  have "map swap_rb (map swap_rb (nd_data arr)) = nd_data arr"
    using assms by (simp add: wf_ndarray_def swap_rb_twice map_idI)
  with assms(2) show ?thesis
    by (cases arr) (simp add: swap_channels_def)
qed

lemma list_update_nth_cases:
  "j < length xs \<Longrightarrow> xs[k := c] ! j = xs ! j \<or> xs[k := c] ! j = c"
  by (cases "k = j") simp_all

lemma set_pixel_pixels:
  "i < length (nd_data a) \<Longrightarrow>
     nd_data (set_pixel c a rc) ! i = nd_data a ! i \<or> nd_data (set_pixel c a rc) ! i = c"
  using list_update_nth_cases [of i "nd_data a"]
  by (simp add: set_pixel_def split: prod.splits)

lemma foldl_set_pixel_pixels:
  "i < length (nd_data a) \<Longrightarrow>
     nd_data (foldl (set_pixel c) a rcs) ! i = nd_data a ! i \<or> nd_data (foldl (set_pixel c) a rcs) ! i = c"
proof (induction rcs arbitrary: a)
  case Nil
  then show ?case by simp
next
  case (Cons rc rcs)
  from Cons.prems have len: "i < length (nd_data (set_pixel c a rc))"
    by (simp add: set_pixel_shape)
  from Cons.IH [OF len] set_pixel_pixels [OF Cons.prems, of c rc]
  show ?case by auto
qed

lemma annotate_pixels:
  "i < length (nd_data img) \<Longrightarrow>
     nd_data (annotate env colour img fs) ! i = nd_data img ! i
     \<or> nd_data (annotate env colour img fs) ! i = colour_pixel colour"
proof (induction env colour img fs rule: annotate.induct)
  case (1 env bgr_color img)
  then show ?case by simp
next
  case (2 env bgr_color img x y w hh faces)
  let ?img' = "paint_rectangle env img (x, y) (x + w, y + hh) bgr_color 2"
  from "2.prems" have len: "i < length (nd_data ?img')"
    by (simp add: paint_rectangle_shape)
  have step: "nd_data ?img' ! i = nd_data img ! i \<or> nd_data ?img' ! i = colour_pixel bgr_color"
    unfolding paint_rectangle_def by (rule foldl_set_pixel_pixels [OF "2.prems"])
  from "2.IH" [OF len] step show ?case by auto
qed

lemma annotate_foldl:
  "annotate env colour img fs =
     foldl (\<lambda>im (x, y, w, hh). paint_rectangle env im (x, y) (x + w, y + hh) colour 2) img fs"
  by (induction env colour img fs rule: annotate.induct) simp_all

lemma store_prefix_kept:
  fixes env :: "('c, 'f) cv_env" and inp :: "'f widgets"
  shows "take (length h0) (run_heap (script env now inp h0)) = h0"
proof (cases rule: script_paths [where env = env and inp = inp])
  case no_upload
  then show ?thesis by (simp add: script_no_upload run_heap_def)
next
  case (decode_fails e)
  then show ?thesis by (simp add: script_decode_fails run_heap_def)
next
  case (convert_fails arr)
  then show ?thesis by (simp add: script_convert_fails run_heap_def)
next
  case (no_model arr e)
  then show ?thesis by (simp add: script_no_model run_heap_def)
next
  case (detect_fails arr c e)
  then show ?thesis by (simp add: script_detect_fails run_heap_def)
next
  case (colour_fails arr c faces e)
  then show ?thesis by (simp add: script_colour_fails run_heap_def)
next
  case (success arr c faces colour)
  then show ?thesis by (simp add: script_success run_heap_def)
qed

text \<open>
  C4. When a run gets through detection and the colour converts, the store at the end is
  the store at the start followed by five new arrays: the decoded image, \<open>opencv_image\<close>,
  the grey image, \<open>result_image\<close> and its RGB version. So every array that was there
  before, the decoded image and \<open>opencv_image\<close> hold the pixels they held: the loop
  draws on the copy only. The copy is \<open>opencv_image\<close> after one call of
  \<^verbatim>\<open>cv2.rectangle\<close> per region, from (x, y) to (x + w, y + h) with thickness 2, in
  the order of the list; it keeps the size of the image, and each of its pixels is the
  pixel of \<open>opencv_image\<close> at that place or the colour.
\<close>

theorem annotation_draws_on_copy:
  fixes env :: "('c, 'f) cv_env" and inp :: "'f widgets"
  assumes "uploaded_file inp = Some (Inr arr)"
    and "nd_rows arr \<noteq> 0" and "nd_cols arr \<noteq> 0" and "nd_chans arr = 3 \<or> nd_chans arr = 4"
    and "cv_CascadeClassifier env = Inr c"
    and "cv_detectMultiScale env c (grey_of (cv_luma env) (swap_channels arr))
           (scale_factor inp) (min_neighbors inp) (30, 30) = Inr faces"
    and "hex_to_bgr (rect_color inp) = Inr colour"
  shows "\<exists>res.
      res = foldl (\<lambda>img (x, y, w, hh). paint_rectangle env img (x, y) (x + w, y + hh) colour 2)
              (swap_channels arr) faces
    \<and> run_heap (script env now inp h0) =
        h0 @ [arr, swap_channels arr, grey_of (cv_luma env) (swap_channels arr),
              res, swap_channels res]
    \<and> annotated_images (run_ui (script env now inp h0)) = [swap_channels res]
    \<and> nd_rows res = nd_rows arr \<and> nd_cols res = nd_cols arr
    \<and> length (nd_data res) = length (nd_data arr)
    \<and> (\<forall>i < length (nd_data arr).
          nd_data res ! i = nd_data (swap_channels arr) ! i \<or> nd_data res ! i = colour_pixel colour)"
proof -
  let ?res = "annotate env colour (swap_channels arr) faces"
  have heap: "run_heap (script env now inp h0) =
      h0 @ [arr, swap_channels arr, grey_of (cv_luma env) (swap_channels arr), ?res, swap_channels ?res]"
    by (simp add: script_success [OF assms] run_heap_def)
  have shown: "annotated_images (run_ui (script env now inp h0)) = [swap_channels ?res]"
    by (simp add: script_success [OF assms] run_ui_def annotated_images_append face_lines_projections)
  have shape: "nd_rows ?res = nd_rows arr" "nd_cols ?res = nd_cols arr"
    "length (nd_data ?res) = length (nd_data arr)"
    by (simp_all add: annotate_shape swap_channels_fields)
  have pixels: "\<forall>i < length (nd_data arr).
      nd_data ?res ! i = nd_data (swap_channels arr) ! i \<or> nd_data ?res ! i = colour_pixel colour"
  proof (intro allI impI)
    fix i
    assume "i < length (nd_data arr)"
    then have "i < length (nd_data (swap_channels arr))"
      by (simp add: swap_channels_fields)
    then show "nd_data ?res ! i = nd_data (swap_channels arr) ! i \<or> nd_data ?res ! i = colour_pixel colour"
      by (rule annotate_pixels)
  qed
  from heap shown shape pixels show ?thesis
    unfolding annotate_foldl by blast
qed

theorem annotation_draws_on_copy_witness:
  "run_heap (script env_one_face sample_now (sample_widgets ''#00FF00'' sample_image) [red_image]) ! 1
     = sample_image
   \<and> run_heap (script env_one_face sample_now (sample_widgets ''#00FF00'' sample_image) [red_image]) ! 2
     = swap_channels sample_image
   \<and> run_heap (script env_one_face sample_now (sample_widgets ''#00FF00'' sample_image) [red_image]) ! 4
     = \<lparr>nd_rows = 2, nd_cols = 3, nd_chans = 3,
        nd_data = [[0, 255, 0], [0, 255, 0], [255, 0, 0],
                   [0, 255, 0], [0, 255, 0], [90, 80, 70]]\<rparr>"
proof -
  have det: "cv_detectMultiScale env_one_face ()
      (grey_of (cv_luma env_one_face) (swap_channels sample_image))
      (scale_factor (sample_widgets ''#00FF00'' sample_image))
      (min_neighbors (sample_widgets ''#00FF00'' sample_image)) (30, 30) = Inr [(0, 0, 1, 1)]"
    by (simp add: env_one_face_def sample_env_fields)
  have load: "cv_CascadeClassifier env_one_face = Inr ()"
    by (simp add: env_one_face_def sample_env_fields)
  have col: "hex_to_bgr (rect_color (sample_widgets ''#00FF00'' sample_image)) = Inr (0, 255, 0)"
    by (simp add: sample_widgets_fields hex_to_bgr_green)
  from annotation_draws_on_copy [OF sample_widgets_fields(1) sample_image_shape load det col,
      of sample_now "[red_image]"]
  show ?thesis
    by (simp add: sample_painted)
qed

section \<open>A run that finds no face\<close>

text \<open>
  C3, as amended. When the detector returns no region and the colour converts, the
  image shown as the result is the uploaded image after the two channel swaps (RGB to
  BGR and back), with no pixel drawn: for a well-formed three-channel image that is
  the uploaded image itself. The count shown is 0 and no region is listed. The image is
  not a round trip through grey: the grey image only goes to the detector.
\<close>

theorem zero_regions_output:
  fixes env :: "('c, 'f) cv_env" and inp :: "'f widgets"
  assumes "uploaded_file inp = Some (Inr arr)"
    and "nd_rows arr \<noteq> 0" and "nd_cols arr \<noteq> 0" and "nd_chans arr = 3 \<or> nd_chans arr = 4"
    and "cv_CascadeClassifier env = Inr c"
    and "cv_detectMultiScale env c (grey_of (cv_luma env) (swap_channels arr))
           (scale_factor inp) (min_neighbors inp) (30, 30) = Inr []"
    and "hex_to_bgr (rect_color inp) = Inr colour"
  shows "annotated_images (run_ui (script env now inp h0)) = [swap_channels (swap_channels arr)]
    \<and> reported_counts (run_ui (script env now inp h0)) = [0]
    \<and> listed_regions (run_ui (script env now inp h0)) = []
    \<and> (wf_ndarray arr \<and> nd_chans arr = 3 \<longrightarrow> swap_channels (swap_channels arr) = arr)"
  by (simp add: script_success [OF assms] run_ui_def swap_channels_twice)

theorem zero_regions_output_witness:
  "annotated_images (run_ui (script env_no_faces sample_now (sample_widgets ''#00FF00'' sample_image) []))
     = [sample_image]
   \<and> reported_counts (run_ui (script env_no_faces sample_now (sample_widgets ''#00FF00'' sample_image) []))
     = [0]"
proof -
  have wf: "wf_ndarray sample_image \<and> nd_chans sample_image = 3"
    by (simp add: wf_ndarray_def sample_image_def)
  have "nd_rows sample_image \<noteq> 0" and "nd_cols sample_image \<noteq> 0"
    and "nd_chans sample_image = 3 \<or> nd_chans sample_image = 4"
    by (simp_all add: sample_image_def)
  from zero_regions_output [where inp = "sample_widgets ''#00FF00'' sample_image"
      and env = env_no_faces and c = "()" and colour = "(0, 255, 0)" and now = sample_now
      and ?h0.0 = "[]", OF sample_widgets_fields(1) this]
  show ?thesis
    using wf by (simp add: env_no_faces_def sample_env_fields sample_widgets_fields hex_to_bgr_green)
qed

text \<open>
  C3, as stated, fails on a single red pixel with a detector that finds nothing: the
  result shown is the red pixel, and its round trip through grey is (76, 76, 76).
\<close>

theorem zero_regions_grey_counterexample:
  "reported_counts (run_ui (script env_no_faces sample_now (sample_widgets ''#00FF00'' red_image) []))
     = [0]
   \<and> annotated_images (run_ui (script env_no_faces sample_now (sample_widgets ''#00FF00'' red_image) []))
     = [red_image]
   \<and> spec_gray_round_trip sample_luma red_image
     = \<lparr>nd_rows = 1, nd_cols = 1, nd_chans = 3, nd_data = [[76, 76, 76]]\<rparr>
   \<and> red_image \<noteq> spec_gray_round_trip sample_luma red_image"
proof -
  have run: "script env_no_faces sample_now (sample_widgets ''#00FF00'' red_image) [] =
      Finished \<lparr>w_heap = [] @ [red_image, swap_channels red_image,
                   grey_of (cv_luma env_no_faces) (swap_channels red_image),
                   annotate env_no_faces (0, 255, 0) (swap_channels red_image) [],
                   swap_channels (annotate env_no_faces (0, 255, 0) (swap_channels red_image) [])],
               w_ui = [Image_original red_image,
                       Image_result (swap_channels (annotate env_no_faces (0, 255, 0) (swap_channels red_image) []))
                         (length ([] :: region list)),
                       Metric_faces (length ([] :: region list)),
                       Metric_scale (scale_factor (sample_widgets ''#00FF00'' red_image)),
                       Metric_neighbors (min_neighbors (sample_widgets ''#00FF00'' red_image))]
                      @ (if length ([] :: region list) > 0 then face_lines 0 [] else [])
                      @ [Download (PNG (swap_channels (annotate env_no_faces (0, 255, 0) (swap_channels red_image) [])))
                           (filename sample_now),
                         if length ([] :: region list) > 0 then Success (length ([] :: region list)) else Warning_no_faces,
                         Footer],
               w_calls = [the_call env_no_faces (sample_widgets ''#00FF00'' red_image) (swap_channels red_image)]\<rparr>"
    by (rule script_success [where c = "()"])
      (simp_all add: sample_widgets_fields env_no_faces_def sample_env_fields hex_to_bgr_green red_image_def)
  have twice: "swap_channels (swap_channels red_image) = red_image"
    by (simp add: swap_channels_def swap_rb_def red_image_def)
  have grey: "spec_gray_round_trip sample_luma red_image
     = \<lparr>nd_rows = 1, nd_cols = 1, nd_chans = 3, nd_data = [[76, 76, 76]]\<rparr>"
    by (simp add: spec_gray_round_trip_def red_image_def sample_luma_red)
  have neq: "red_image \<noteq> spec_gray_round_trip sample_luma red_image"
    unfolding grey by (simp add: red_image_def)
  from grey neq show ?thesis by (simp add: run run_ui_def twice)
qed

section \<open>Failures\<close>



text \<open>
  C6, as amended. The conversion does not validate: what it raises on a colour string is
  the \<^verbatim>\<open>ValueError\<close> of \<^verbatim>\<open>int()\<close>. The call sits inside the \<^verbatim>\<open>try\<close>
  block, so the error is caught by the same handler as a failure to load the model and
  shown with the same message; no exception leaves the script.
\<close>

theorem malformed_colour_handled:
  fixes env :: "('c, 'f) cv_env" and inp :: "'f widgets"
  assumes "uploaded_file inp = Some (Inr arr)"
    and "nd_rows arr \<noteq> 0" and "nd_cols arr \<noteq> 0" and "nd_chans arr = 3 \<or> nd_chans arr = 4"
    and "cv_CascadeClassifier env = Inr c"
    and "cv_detectMultiScale env c (grey_of (cv_luma env) (swap_channels arr))
           (scale_factor inp) (min_neighbors inp) (30, 30) = Inr faces"
    and "hex_to_bgr (rect_color inp) = Inl e"
  shows "(\<exists>lit. e = ValueError lit)
    \<and> uncaught (script env now inp h0) = None
    \<and> run_ui (script env now inp h0) = [Image_original arr, Error_model e, Info_install, Footer]"
  using hex_to_bgr_raises [OF assms(7)]
  by (simp add: script_colour_fails [OF assms] run_ui_def)

theorem malformed_colour_handled_witness:
  "uncaught (script env_one_face sample_now (sample_widgets ''#GG0000'' sample_image) []) = None
   \<and> run_ui (script env_one_face sample_now (sample_widgets ''#GG0000'' sample_image) [])
       = [Image_original sample_image, Error_model (ValueError ''GG''), Info_install, Footer]"
proof -
  have "nd_rows sample_image \<noteq> 0" and "nd_cols sample_image \<noteq> 0"
    and "nd_chans sample_image = 3 \<or> nd_chans sample_image = 4"
    by (simp_all add: sample_image_def)
  from malformed_colour_handled [where inp = "sample_widgets ''#GG0000'' sample_image"
      and env = env_one_face and c = "()" and faces = "[(0, 0, 1, 1)]" and e = "ValueError ''GG''"
      and now = sample_now and ?h0.0 = "[]", OF sample_widgets_fields(1) this]
  show ?thesis
    by (simp add: env_one_face_def sample_env_fields sample_widgets_fields hex_to_bgr_bad)
qed

text \<open>
  C6, as stated, fails on \<^verbatim>\<open>#GG0000\<close>: the run ends normally and the error is shown
  by the handler that also shows a model that does not load.
\<close>

theorem malformed_colour_counterexample:
  "uncaught (script env_one_face sample_now (sample_widgets ''#GG0000'' sample_image) []) = None
   \<and> shown_errors (run_ui (script env_one_face sample_now (sample_widgets ''#GG0000'' sample_image) []))
       = [ValueError ''GG'']
   \<and> shown_errors (run_ui (script env_no_model sample_now (sample_widgets ''#00FF00'' sample_image) []))
       = [LibError ''cascade'']"
proof -
  have shape: "nd_rows sample_image \<noteq> 0" "nd_cols sample_image \<noteq> 0"
    "nd_chans sample_image = 3 \<or> nd_chans sample_image = 4"
    by (simp_all add: sample_image_def)
  have bad: "script env_one_face sample_now (sample_widgets ''#GG0000'' sample_image) [] =
     Finished \<lparr>w_heap = [] @ [sample_image, swap_channels sample_image,
                               grey_of (cv_luma env_one_face) (swap_channels sample_image),
                               swap_channels sample_image],
               w_ui = [Image_original sample_image, Error_model (ValueError ''GG''), Info_install, Footer],
               w_calls = [the_call env_one_face (sample_widgets ''#GG0000'' sample_image)
                            (swap_channels sample_image)]\<rparr>"
    by (rule script_colour_fails [where c = "()" and faces = "[(0, 0, 1, 1)]", OF sample_widgets_fields(1) shape])
      (simp_all add: env_one_face_def sample_env_fields sample_widgets_fields hex_to_bgr_bad)
  have no_model: "script env_no_model sample_now (sample_widgets ''#00FF00'' sample_image) [] =
     Finished \<lparr>w_heap = [] @ [sample_image, swap_channels sample_image],
               w_ui = [Image_original sample_image, Error_model (LibError ''cascade''), Info_install, Footer],
               w_calls = []\<rparr>"
    by (rule script_no_model [OF sample_widgets_fields(1) shape])
      (simp add: env_no_model_def sample_env_fields)
  show ?thesis by (simp add: bad no_model run_ui_def)
qed

section \<open>Two runs on the same inputs\<close>

text \<open>
  C7. With the library as a function of its arguments, two runs on the same widgets list
  the same regions and show the same annotated image, whatever the clock reads and
  whatever the store holds when each run starts. They also report the same count, offer
  the same PNG, call the detector with the same arguments and end the same way; only the
  file name of the download follows the clock.
\<close>

theorem pipeline_deterministic:
  fixes env :: "('c, 'f) cv_env" and inp :: "'f widgets"
  shows "listed_regions (run_ui (script env now1 inp h1)) = listed_regions (run_ui (script env now2 inp h2))
     \<and> annotated_images (run_ui (script env now1 inp h1)) = annotated_images (run_ui (script env now2 inp h2))
     \<and> reported_counts (run_ui (script env now1 inp h1)) = reported_counts (run_ui (script env now2 inp h2))
     \<and> map fst (downloads (run_ui (script env now1 inp h1))) = map fst (downloads (run_ui (script env now2 inp h2)))
     \<and> run_calls (script env now1 inp h1) = run_calls (script env now2 inp h2)
     \<and> uncaught (script env now1 inp h1) = uncaught (script env now2 inp h2)"
proof (cases rule: script_paths [where env = env and inp = inp])
  case no_upload
  then show ?thesis by (simp add: script_no_upload run_ui_def run_calls_def)
next
  case (decode_fails e)
  then show ?thesis by (simp add: script_decode_fails run_ui_def run_calls_def)
next
  case (convert_fails arr)
  then show ?thesis by (simp add: script_convert_fails run_ui_def run_calls_def)
next
  case (no_model arr e)
  then show ?thesis by (simp add: script_no_model run_ui_def run_calls_def)
next
  case (detect_fails arr c e)
  then show ?thesis by (simp add: script_detect_fails run_ui_def run_calls_def)
next
  case (colour_fails arr c faces e)
  then show ?thesis by (simp add: script_colour_fails run_ui_def run_calls_def)
next
  case (success arr c faces colour)
  then show ?thesis
    by (simp add: script_success run_ui_def run_calls_def annotated_images_append
        listed_regions_append reported_counts_append downloads_append face_lines_projections)
qed

theorem pipeline_deterministic_witness:
  "listed_regions (run_ui (script env_one_face sample_now (sample_widgets ''#00FF00'' sample_image) []))
     = listed_regions (run_ui (script env_one_face other_now (sample_widgets ''#00FF00'' sample_image) [red_image]))
   \<and> annotated_images (run_ui (script env_one_face sample_now (sample_widgets ''#00FF00'' sample_image) []))
     = annotated_images (run_ui (script env_one_face other_now (sample_widgets ''#00FF00'' sample_image) [red_image]))
   \<and> reported_counts (run_ui (script env_one_face sample_now (sample_widgets ''#00FF00'' sample_image) []))
     = reported_counts (run_ui (script env_one_face other_now (sample_widgets ''#00FF00'' sample_image) [red_image]))
   \<and> map fst (downloads (run_ui (script env_one_face sample_now (sample_widgets ''#00FF00'' sample_image) [])))
     = map fst (downloads (run_ui (script env_one_face other_now (sample_widgets ''#00FF00'' sample_image) [red_image])))
   \<and> run_calls (script env_one_face sample_now (sample_widgets ''#00FF00'' sample_image) [])
     = run_calls (script env_one_face other_now (sample_widgets ''#00FF00'' sample_image) [red_image])
   \<and> uncaught (script env_one_face sample_now (sample_widgets ''#00FF00'' sample_image) [])
     = uncaught (script env_one_face other_now (sample_widgets ''#00FF00'' sample_image) [red_image])"
  by (rule pipeline_deterministic)

section \<open>The download\<close>

lemma decimal_digits: "c \<in> set (decimal n) \<Longrightarrow> is_digit c"
proof (induction n arbitrary: c rule: decimal.induct)
  case (1 n)
  show ?case
  proof (cases "n < 10")
    case True
    with "1.prems" show ?thesis
      by (simp add: decimal.simps [of n] is_digit_def)
  next
    case False
    have "n mod 10 < 10" by simp
    then have last: "is_digit (char_of (48 + n mod 10))"
      by (simp add: is_digit_def)
    from False "1.prems" have "c \<in> set (decimal (n div 10)) \<or> c = char_of (48 + n mod 10)"
      by (auto simp: decimal.simps [of n])
    with "1.IH" [OF False] last show ?thesis by blast
  qed
qed

lemma length_decimal: "0 < k \<Longrightarrow> n < 10 ^ k \<Longrightarrow> length (decimal n) \<le> k"
proof (induction k arbitrary: n)
  case 0
  then show ?case by simp
next
  case (Suc k)
  show ?case
  proof (cases "n < 10")
    case True
    then show ?thesis by (simp add: decimal.simps [of n])
  next
    case False
    with Suc.prems have "0 < k" by (cases k) simp_all
    moreover from Suc.prems have "n div 10 < 10 ^ k"
      by (simp add: less_mult_imp_div_less mult.commute)
    ultimately have "length (decimal (n div 10)) \<le> k" by (rule Suc.IH)
    with False show ?thesis by (simp add: decimal.simps [of n])
  qed
qed

lemma zpad_length: "0 < k \<Longrightarrow> n < 10 ^ k \<Longrightarrow> length (zpad k n) = k"
  using length_decimal [of k n] by (simp add: zpad_def)

lemma zpad_digits: "c \<in> set (zpad k n) \<Longrightarrow> is_digit c"
  by (auto simp: zpad_def is_digit_def dest: decimal_digits)

lemma stamp_parts:
  assumes "length d1 = 8" and "length d2 = 6"
    and "\<forall>c \<in> set d1. P c" and "\<forall>c \<in> set d2. P c"
  shows "length (d1 @ x # d2) = 15" and "(d1 @ x # d2) ! 8 = x"
    and "\<forall>i<15. i \<noteq> 8 \<longrightarrow> P ((d1 @ x # d2) ! i)"
proof -
  show "length (d1 @ x # d2) = 15" using assms(1,2) by simp
  show "(d1 @ x # d2) ! 8 = x" using assms(1) by (simp add: nth_append)
  show "\<forall>i<15. i \<noteq> 8 \<longrightarrow> P ((d1 @ x # d2) ! i)"
  proof (intro allI impI)
    fix i :: nat
    assume i: "i < 15" "i \<noteq> 8"
    show "P ((d1 @ x # d2) ! i)"
    proof (cases "i < 8")
      case True
      with assms(1) have "(d1 @ x # d2) ! i = d1 ! i" and "d1 ! i \<in> set d1"
        by (simp_all add: nth_append)
      with assms(3) show ?thesis by simp
    next
      case False
      with i have j: "i - 9 < 6" and gt: "8 < i" by simp_all
      from gt assms(1) have "(d1 @ x # d2) ! i = d2 ! (i - 9)"
        by (simp add: nth_append nth_Cons')
      moreover from j assms(2) have "d2 ! (i - 9) \<in> set d2" by simp
      ultimately show ?thesis using assms(4) by simp
    qed
  qed
qed

lemma strftime_shape:
  assumes "dt_year t < 10000" and "dt_month t < 100" and "dt_day t < 100"
    and "dt_hour t < 100" and "dt_minute t < 100" and "dt_second t < 100"
  shows "length (strftime t) = 15" and "strftime t ! 8 = CHR ''_''"
    and "\<forall>i<15. i \<noteq> 8 \<longrightarrow> is_digit (strftime t ! i)"
proof -
  define d1 where "d1 = zpad 4 (dt_year t) @ zpad 2 (dt_month t) @ zpad 2 (dt_day t)"
  define d2 where "d2 = zpad 2 (dt_hour t) @ zpad 2 (dt_minute t) @ zpad 2 (dt_second t)"
  have eq: "strftime t = d1 @ CHR ''_'' # d2"
    by (simp add: strftime_def d1_def d2_def)
  have l1: "length d1 = 8" and l2: "length d2 = 6"
    using assms by (simp_all add: zpad_length d1_def d2_def)
  have g1: "\<forall>c \<in> set d1. is_digit c" and g2: "\<forall>c \<in> set d2. is_digit c"
    by (auto simp: d1_def d2_def dest: zpad_digits)
  show "length (strftime t) = 15"
    unfolding eq by (rule stamp_parts(1) [OF l1 l2 g1 g2])
  show "strftime t ! 8 = CHR ''_''"
    unfolding eq by (rule stamp_parts(2) [OF l1 l2 g1 g2])
  show "\<forall>i<15. i \<noteq> 8 \<longrightarrow> is_digit (strftime t ! i)"
    unfolding eq by (rule stamp_parts(3) [OF l1 l2 g1 g2])
qed

lemma strftime_sample: "strftime sample_now = ''20261103_201805''"
  by (simp add: strftime_def zpad_def sample_now_def decimal.simps char_of_def bit_0)

text \<open>
  C8. A run that gets through offers one download: the PNG encoding of the image shown
  as the result, which has the rows and columns of the uploaded image, under the name
  \<^verbatim>\<open>face_detection_result_\<close>, then the clock reading as eight digits, an
  underscore and six digits, starting with the year, then \<^verbatim>\<open>.png\<close>.
\<close>

theorem download_is_png_of_source_size:
  fixes env :: "('c, 'f) cv_env" and inp :: "'f widgets"
  assumes "uploaded_file inp = Some (Inr arr)"
    and "nd_rows arr \<noteq> 0" and "nd_cols arr \<noteq> 0" and "nd_chans arr = 3 \<or> nd_chans arr = 4"
    and "cv_CascadeClassifier env = Inr c"
    and "cv_detectMultiScale env c (grey_of (cv_luma env) (swap_channels arr))
           (scale_factor inp) (min_neighbors inp) (30, 30) = Inr faces"
    and "hex_to_bgr (rect_color inp) = Inr colour"
    and "1000 \<le> dt_year now" and "dt_year now \<le> 9999" and "dt_month now \<le> 12"
    and "dt_day now \<le> 31" and "dt_hour now < 24" and "dt_minute now < 60" and "dt_second now < 60"
  shows "\<exists>img. uncaught (script env now inp h0) = None
    \<and> downloads (run_ui (script env now inp h0)) =
        [(PNG img, ''face_detection_result_'' @ strftime now @ ''.png'')]
    \<and> annotated_images (run_ui (script env now inp h0)) = [img]
    \<and> nd_rows img = nd_rows arr \<and> nd_cols img = nd_cols arr
    \<and> length (strftime now) = 15 \<and> strftime now ! 8 = CHR ''_''
    \<and> (\<forall>i<15. i \<noteq> 8 \<longrightarrow> is_digit (strftime now ! i))
    \<and> take 4 (strftime now) = decimal (dt_year now)"
proof -
  let ?img = "swap_channels (annotate env colour (swap_channels arr) faces)"
  have ui: "downloads (run_ui (script env now inp h0)) =
        [(PNG ?img, ''face_detection_result_'' @ strftime now @ ''.png'')]"
    "annotated_images (run_ui (script env now inp h0)) = [?img]"
    "uncaught (script env now inp h0) = None"
    by (simp_all add: script_success [OF assms(1-7)] run_ui_def downloads_append
        annotated_images_append face_lines_projections filename_def)
  have size: "nd_rows ?img = nd_rows arr" "nd_cols ?img = nd_cols arr"
    by (simp_all add: swap_channels_fields annotate_shape)
  have stamp: "length (strftime now) = 15" "strftime now ! 8 = CHR ''_''"
    "\<forall>i<15. i \<noteq> 8 \<longrightarrow> is_digit (strftime now ! i)"
    using assms(9-14) by (simp_all add: strftime_shape)
  have "length (decimal (dt_year now)) \<le> 4"
    using assms(9) by (simp add: length_decimal)
  moreover have "4 \<le> length (decimal (dt_year now))"
  proof -
    have big: "\<not> dt_year now < 10" "\<not> dt_year now div 10 < 10" "\<not> dt_year now div 10 div 10 < 10"
      using assms(8) by simp_all
    show ?thesis
      by (simp add: decimal.simps [of "dt_year now"] decimal.simps [of "dt_year now div 10"]
          decimal.simps [of "dt_year now div 10 div 10"] decimal.simps [of "dt_year now div 10 div 10 div 10"] big)
  qed
  ultimately have "length (decimal (dt_year now)) = 4" by simp
  then have year: "take 4 (strftime now) = decimal (dt_year now)"
    by (simp add: strftime_def zpad_def)
  from ui size stamp year show ?thesis by blast
qed

theorem download_is_png_of_source_size_witness:
  "downloads (run_ui (script env_one_face sample_now (sample_widgets ''#00FF00'' sample_image) []))
     = [(PNG \<lparr>nd_rows = 2, nd_cols = 3, nd_chans = 3,
              nd_data = [[0, 255, 0], [0, 255, 0], [0, 0, 255],
                         [0, 255, 0], [0, 255, 0], [70, 80, 90]]\<rparr>,
         ''face_detection_result_20261103_201805.png'')]"
proof -
  have det: "cv_detectMultiScale env_one_face ()
      (grey_of (cv_luma env_one_face) (swap_channels sample_image))
      (scale_factor (sample_widgets ''#00FF00'' sample_image))
      (min_neighbors (sample_widgets ''#00FF00'' sample_image)) (30, 30) = Inr [(0, 0, 1, 1)]"
    by (simp add: env_one_face_def sample_env_fields)
  have load: "cv_CascadeClassifier env_one_face = Inr ()"
    by (simp add: env_one_face_def sample_env_fields)
  have col: "hex_to_bgr (rect_color (sample_widgets ''#00FF00'' sample_image)) = Inr (0, 255, 0)"
    by (simp add: sample_widgets_fields hex_to_bgr_green)
  have shown: "annotated_images
      (run_ui (script env_one_face sample_now (sample_widgets ''#00FF00'' sample_image) []))
    = [\<lparr>nd_rows = 2, nd_cols = 3, nd_chans = 3,
              nd_data = [[0, 255, 0], [0, 255, 0], [0, 0, 255],
                         [0, 255, 0], [0, 255, 0], [70, 80, 90]]\<rparr>]"
    by (simp add: script_success [OF sample_widgets_fields(1) sample_image_shape load det col]
        run_ui_def sample_painted)
      (simp add: swap_channels_def swap_rb_def)
  from download_is_png_of_source_size [OF sample_widgets_fields(1) sample_image_shape load det col
      sample_clock, of "[]"]
  show ?thesis
    using shown by (auto simp: strftime_sample)
qed

section \<open>The arguments of the detector\<close>



end
